theory Spec2Isabelle
  imports Main "HOL-Library.Word"
begin

section \<open>Raster images\<close>

text \<open>
  The program works on numpy \<open>uint8\<close> arrays.  An image is either a two-dimensional
  array (height by width, one channel) or a three-dimensional one (height by width by
  channels).  \<open>shape\<close> is numpy's \<open>img.shape\<close>; the source only ever asks for its
  length.
\<close>

type_synonym pixel = "8 word"

datatype ndarray = Gray "pixel list list" | Color "pixel list list list"

definition row_len :: "'a list list \<Rightarrow> nat" where
  "row_len rows = (case rows of [] \<Rightarrow> 0 | r # _ \<Rightarrow> length r)"

fun shape :: "ndarray \<Rightarrow> nat list" where
  "shape (Gray rows) = [length rows, row_len rows]"
| "shape (Color rows) = [length rows, row_len rows, (case rows of [] \<Rightarrow> 0 | r # _ \<Rightarrow> row_len r)]"

definition rectangular :: "'a list list \<Rightarrow> bool" where
  "rectangular rows = list_all (\<lambda>r. length r = row_len rows) rows"

text \<open>An array with no element: OpenCV's \<open>Mat::empty()\<close>.\<close>

definition is_empty :: "ndarray \<Rightarrow> bool" where
  "is_empty a = (0 \<in> set (shape a))"

text \<open>
  The images the preprocessor is specified for: a non-empty single-channel image, or a
  non-empty image with three colour channels.
\<close>

fun valid_image :: "ndarray \<Rightarrow> bool" where
  "valid_image (Gray rows) = (rows \<noteq> [] \<and> row_len rows \<noteq> 0 \<and> rectangular rows)"
| "valid_image (Color rows) =
     (rows \<noteq> [] \<and> row_len rows \<noteq> 0 \<and> rectangular rows
      \<and> list_all (list_all (\<lambda>px. length px = 3)) rows)"

text \<open>Every pixel is black or white.\<close>

definition binary_image :: "pixel list list \<Rightarrow> bool" where
  "binary_image rows = list_all (list_all (\<lambda>p. p = 0 \<or> p = 255)) rows"

section \<open>Exceptions\<close>

text \<open>
  A raised Python \<open>Exception\<close>, with the text that \<open>str(e)\<close> gives.  A call that may
  raise returns \<open>exn + 'a\<close>, with \<open>Inl\<close> for the exception.
\<close>

datatype exn = Exception string

fun str_exn :: "exn \<Rightarrow> string" where
  "str_exn (Exception msg) = msg"

section \<open>The vision library\<close>

text \<open>
  OpenCV is an external collaborator.  Its two numeric kernels are parameters of the
  model: \<open>luma b g r\<close> is the weighted sum that \<open>COLOR_BGR2GRAY\<close> computes from one
  pixel, and \<open>gauss_mean blockSize src y x\<close> is the Gaussian-weighted mean of the
  \<open>blockSize\<close> by \<open>blockSize\<close> neighbourhood of pixel \<open>(y, x)\<close>, both rounded to
  \<open>uint8\<close> by the library.  Everything around them (the argument checks, the
  comparison against the local threshold, erosion and dilation) is written out.
\<close>

record cv2 =
  luma :: "pixel \<Rightarrow> pixel \<Rightarrow> pixel \<Rightarrow> pixel"
  gauss_mean :: "nat \<Rightarrow> pixel list list \<Rightarrow> nat \<Rightarrow> nat \<Rightarrow> pixel"

text \<open>
  Modelled from the spec: \<open>cv2.cvtColor(img, cv2.COLOR_BGR2GRAY)\<close>, the "standard
  luma-weighted conversion" to a single channel.  The library accepts three or four
  channels (the fourth, alpha, is ignored) and raises on anything else.
\<close>

fun gray_of_pixel :: "cv2 \<Rightarrow> pixel list \<Rightarrow> pixel" where
  "gray_of_pixel cv (b # g # r # _) = luma cv b g r"
| "gray_of_pixel cv _ = 0"

definition cvtColor_BGR2GRAY :: "cv2 \<Rightarrow> ndarray \<Rightarrow> exn + ndarray" where
  "cvtColor_BGR2GRAY cv img =
     (if is_empty img then Inl (Exception ''cv2.error: !_src.empty()'')
      else case img of
        Gray _ \<Rightarrow> Inl (Exception ''cv2.error: Invalid number of channels in input image'')
      | Color rows \<Rightarrow>
          (if shape img ! 2 = 3 \<or> shape img ! 2 = 4
           then Inr (Gray (map (map (gray_of_pixel cv)) rows))
           else Inl (Exception ''cv2.error: Invalid number of channels in input image'')))"

text \<open>
  Modelled from the spec: \<open>cv2.adaptiveThreshold(src, maxValue, ADAPTIVE_THRESH_GAUSSIAN_C,
  THRESH_BINARY, blockSize, C)\<close>: each pixel is compared with the Gaussian-weighted mean
  of its neighbourhood minus the constant \<open>C\<close>; it becomes \<open>maxValue\<close> when it is
  above that threshold and \<open>0\<close> otherwise.  The source must be a non-empty
  single-channel image and the block size odd and greater than one.
\<close>

definition threshold_pixel :: "pixel \<Rightarrow> int \<Rightarrow> pixel \<Rightarrow> pixel \<Rightarrow> pixel" where
  "threshold_pixel maxValue c m s = (if uint s > uint m - c then maxValue else 0)"

definition adaptiveThreshold ::
  "cv2 \<Rightarrow> ndarray \<Rightarrow> pixel \<Rightarrow> nat \<Rightarrow> int \<Rightarrow> exn + ndarray" where
  "adaptiveThreshold cv src maxValue blockSize c =
     (case src of
        Color _ \<Rightarrow> Inl (Exception ''cv2.error: src.type() == CV_8UC1'')
      | Gray rows \<Rightarrow>
          (if \<not> (blockSize mod 2 = 1 \<and> blockSize > 1)
           then Inl (Exception ''cv2.error: blockSize % 2 == 1 && blockSize > 1'')
           else if is_empty src then Inl (Exception ''cv2.error: !_src.empty()'')
           else Inr (Gray (map (\<lambda>y. map (\<lambda>x.
                  threshold_pixel maxValue c (gauss_mean cv blockSize rows y x) (rows ! y ! x))
                  [0..<length (rows ! y)]) [0..<length rows]))))"

text \<open>
  Modelled from the spec: \<open>cv2.morphologyEx(src, cv2.MORPH_OPEN, kernel)\<close>, "erosion
  followed by dilation" with the given structuring element.  The anchor is the centre of
  the kernel; erosion takes the minimum and dilation the maximum of the pixels under the
  non-zero kernel elements; pixels outside the image do not take part.
\<close>

definition np_ones :: "nat \<Rightarrow> nat \<Rightarrow> pixel list list" where
  "np_ones h w = replicate h (replicate w 1)"

definition kernel_offsets :: "pixel list list \<Rightarrow> (int \<times> int) list" where
  "kernel_offsets k =
     concat (map (\<lambda>i. concat (map (\<lambda>j.
        if k ! i ! j \<noteq> 0
        then [(int i - int (length k div 2), int j - int (row_len k div 2))] else [])
        [0..<length (k ! i)])) [0..<length k])"

definition neighbours :: "pixel list list \<Rightarrow> (int \<times> int) list \<Rightarrow> nat \<Rightarrow> nat \<Rightarrow> pixel list" where
  "neighbours rows offs y x =
     concat (map (\<lambda>(dy, dx).
        let y' = int y + dy; x' = int x + dx in
        if 0 \<le> y' \<and> y' < int (length rows) \<and> 0 \<le> x' \<and> x' < int (length (rows ! nat y'))
        then [rows ! nat y' ! nat x'] else []) offs)"

definition erode :: "pixel list list \<Rightarrow> pixel list list \<Rightarrow> pixel list list" where
  "erode rows k =
     map (\<lambda>y. map (\<lambda>x. fold min (neighbours rows (kernel_offsets k) y x) 255)
       [0..<length (rows ! y)]) [0..<length rows]"

definition dilate :: "pixel list list \<Rightarrow> pixel list list \<Rightarrow> pixel list list" where
  "dilate rows k =
     map (\<lambda>y. map (\<lambda>x. fold max (neighbours rows (kernel_offsets k) y x) 0)
       [0..<length (rows ! y)]) [0..<length rows]"

text \<open>A multi-channel image is opened channel by channel.\<close>

definition channel_plane :: "pixel list list list \<Rightarrow> nat \<Rightarrow> pixel list list" where
  "channel_plane rows c = map (map (\<lambda>px. px ! c)) rows"

definition morphologyEx_OPEN :: "ndarray \<Rightarrow> pixel list list \<Rightarrow> exn + ndarray" where
  "morphologyEx_OPEN src krn =
     (if is_empty src then Inl (Exception ''cv2.error: !_src.empty()'')
      else case src of
        Gray rows \<Rightarrow> Inr (Gray (dilate (erode rows krn) krn))
      | Color rows \<Rightarrow>
          (let planes = map (\<lambda>c. dilate (erode (channel_plane rows c) krn) krn)
                          [0..<shape src ! 2]
           in Inr (Color (map (\<lambda>y. map (\<lambda>x. map (\<lambda>c. planes ! c ! y ! x) [0..<shape src ! 2])
                  [0..<length (rows ! y)]) [0..<length rows]))))"

section \<open>The image preprocessor\<close>

text \<open>
  \<open>preprocess_image\<close>, lines 11 to 37.  \<open>grayscale_step\<close> is its first statement (the
  \<open>if len(img.shape) == 3\<close> of lines 22 to 25) and \<open>threshold_and_open\<close> the rest
  (lines 27 to 37); a \<open>cv2.error\<close> raised by a library call leaves the function as it
  is.
\<close>

definition grayscale_step :: "cv2 \<Rightarrow> ndarray \<Rightarrow> exn + ndarray" where
  "grayscale_step cv img =
     (if length (shape img) = 3 then cvtColor_BGR2GRAY cv img else Inr img)"

definition threshold_and_open :: "cv2 \<Rightarrow> ndarray \<Rightarrow> exn + ndarray" where
  "threshold_and_open cv gray =
     (case adaptiveThreshold cv gray 255 11 2 of
        Inl e \<Rightarrow> Inl e
      | Inr thresh \<Rightarrow>
          (let kernel = np_ones 1 1 in morphologyEx_OPEN thresh kernel))"

definition preprocess_image :: "cv2 \<Rightarrow> ndarray \<Rightarrow> exn + ndarray" where
  "preprocess_image cv img =
     (case grayscale_step cv img of
        Inl e \<Rightarrow> Inl e
      | Inr gray \<Rightarrow> threshold_and_open cv gray)"

text \<open>
  The pipeline with the opening step removed: grayscale conversion followed by adaptive
  thresholding alone.
\<close>

definition preprocess_without_opening :: "cv2 \<Rightarrow> ndarray \<Rightarrow> exn + ndarray" where
  "preprocess_without_opening cv img =
     (case grayscale_step cv img of
        Inl e \<Rightarrow> Inl e
      | Inr gray \<Rightarrow> adaptiveThreshold cv gray 255 11 2)"

text \<open>
  The number of colour channels of an image: one for a two-dimensional array, the last
  dimension for a three-dimensional one.
\<close>

fun channels :: "ndarray \<Rightarrow> nat" where
  "channels (Gray rows) = 1"
| "channels (Color rows) = shape (Color rows) ! 2"

text \<open>
  An instance of the library's kernels, for evaluating the model on concrete images:
  the fixed-point luma weights of OpenCV 4 and, for the block size 11 of line 30, a
  Gaussian-weighted mean with the border replicated.  The eleven taps are the Gaussian
  of standard deviation 2 in 256ths; the library's own taps may differ from them in the
  last digit.  On an image of one colour that makes no difference: every weighted mean
  of a replicated neighbourhood is that colour.  The sample runs below use images of
  one colour only.
\<close>

definition gauss_taps :: "nat list" where
  "gauss_taps = [2, 7, 17, 31, 45, 52, 45, 31, 17, 7, 2]"

definition replicate_index :: "nat \<Rightarrow> int \<Rightarrow> nat" where
  "replicate_index n i = nat (max 0 (min (int n - 1) i))"

definition gaussian_mean :: "nat \<Rightarrow> pixel list list \<Rightarrow> nat \<Rightarrow> nat \<Rightarrow> pixel" where
  "gaussian_mean blockSize rows y x =
     of_nat ((sum_list (map (\<lambda>i. sum_list (map (\<lambda>j.
                gauss_taps ! i * gauss_taps ! j
                * unat (rows ! replicate_index (length rows) (int y + int i - 5)
                             ! replicate_index (row_len rows) (int x + int j - 5)))
                [0..<11])) [0..<11]) + 32768) div 65536)"

definition demo_cv :: cv2 where
  "demo_cv =
     \<lparr> luma = (\<lambda>b g r. of_nat ((unat b * 3735 + unat g * 19235 + unat r * 9798 + 16384)
                                 div 32768)),
       gauss_mean = gaussian_mean \<rparr>"

section \<open>Strings and paths\<close>

text \<open>
  Strings are byte strings.  \<open>lower\<close> is \<open>str.lower\<close> on ASCII, \<open>str_nat\<close> is \<open>str\<close> of
  a non-negative integer (the page numbers and counts that the program formats),
  \<open>rfind\<close> is \<open>str.rfind\<close> of one character, and \<open>splitext\<close>, \<open>basename\<close> and \<open>join\<close>
  are the functions of \<open>posixpath\<close>.
\<close>

definition lower_char :: "char \<Rightarrow> char" where
  "lower_char c =
     (case map_of (zip ''ABCDEFGHIJKLMNOPQRSTUVWXYZ'' ''abcdefghijklmnopqrstuvwxyz'') c of
        Some l \<Rightarrow> l
      | None \<Rightarrow> c)"

definition lower :: "string \<Rightarrow> string" where
  "lower s = map lower_char s"

definition digit_char :: "nat \<Rightarrow> char" where
  "digit_char d = ''0123456789'' ! d"

function str_nat :: "nat \<Rightarrow> string" where
  "str_nat n = (if n < 10 then [digit_char n] else str_nat (n div 10) @ [digit_char (n mod 10)])"
  by pat_completeness auto
termination
  by (relation "measure (\<lambda>n. n)") auto

primrec rfind :: "char \<Rightarrow> string \<Rightarrow> int" where
  "rfind c [] = - 1"
| "rfind c (x # xs) =
     (let r = rfind c xs in if 0 \<le> r then r + 1 else if x = c then 0 else - 1)"

text \<open>
  The \<open>while\<close> loop of \<open>genericpath._splitext\<close> over the characters between the last
  separator and the last dot: a name that is dots only up to there has no extension.
\<close>

fun has_non_dot :: "string \<Rightarrow> bool" where
  "has_non_dot [] = False"
| "has_non_dot (c # cs) = (if c \<noteq> CHR ''.'' then True else has_non_dot cs)"

definition splitext :: "string \<Rightarrow> string \<times> string" where
  "splitext p =
     (let sepIndex = rfind CHR ''/'' p; dotIndex = rfind CHR ''.'' p in
      if dotIndex > sepIndex
         \<and> has_non_dot (take (nat (dotIndex - (sepIndex + 1))) (drop (nat (sepIndex + 1)) p))
      then (take (nat dotIndex) p, drop (nat dotIndex) p)
      else (p, []))"

definition basename :: "string \<Rightarrow> string" where
  "basename p = drop (nat (rfind CHR ''/'' p + 1)) p"

definition join :: "string \<Rightarrow> string \<Rightarrow> string" where
  "join a b =
     (if b \<noteq> [] \<and> hd b = CHR ''/'' then b
      else if a = [] \<or> last a = CHR ''/'' then a @ b
      else a @ ''/'' @ b)"

section \<open>The world outside the program\<close>

text \<open>
  The state the program acts on: the regular files by path, the paths of the files it
  has written, in the order of the writes, the directories it has created, the lines
  printed on standard output, and the images handed to the OCR engine, in call order.
  Two paths may name one file; \<open>writes\<close> records the paths as the program gave them.
\<close>

datatype pil_image = PIL ndarray

fun np_array :: "pil_image \<Rightarrow> ndarray" where
  "np_array (PIL a) = a"

datatype content = Text string | SavedArray ndarray | SavedPage pil_image

record world =
  files :: "string \<rightharpoonup> content"
  writes :: "string list"
  dirs :: "string set"
  stdout :: "string list"
  ocr_calls :: "ndarray list"

definition py_print :: "string \<Rightarrow> world \<Rightarrow> world" where
  "py_print line w = w\<lparr>stdout := stdout w @ [line]\<rparr>"

definition write_file :: "string \<Rightarrow> content \<Rightarrow> world \<Rightarrow> world" where
  "write_file path c w = w\<lparr>files := (files w)(path \<mapsto> c), writes := writes w @ [path]\<rparr>"

text \<open>
  The external collaborators.  What a call answers is the environment's choice and so a
  parameter.  \<open>imread\<close> answers \<open>None\<close> for a file it cannot decode.  \<open>imwrite\<close>
  answers \<open>True\<close> when it has written the file and \<open>False\<close> when it could not; the
  program discards that answer (lines 60 and 112).  \<open>Image.save\<close>, \<open>os.makedirs\<close>
  and \<open>open(path, 'w')\<close> do their work or answer the exception they raise.
\<close>

record env =
  vision :: cv2
  imread :: "string \<Rightarrow> exn + ndarray option"
  imwrite :: "string \<Rightarrow> ndarray \<Rightarrow> exn + bool"
  image_to_string :: "ndarray \<Rightarrow> exn + string"
  convert_from_path :: "string \<Rightarrow> exn + pil_image list"
  pil_save :: "pil_image \<Rightarrow> string \<Rightarrow> exn option"
  makedirs :: "string \<Rightarrow> exn option"
  open_w :: "string \<Rightarrow> exn option"

section \<open>The single-image processor\<close>

text \<open>
  \<open>process_image_file\<close>, lines 39 to 69.  \<open>image_try\<close> is the body of its \<open>try\<close>; the
  handler turns an exception into a printed line and the result \<open>None\<close>.
\<close>

definition image_try :: "env \<Rightarrow> string \<Rightarrow> world \<Rightarrow> (exn + string option) \<times> world" where
  "image_try env image_path w =
     (case imread env image_path of
        Inl e \<Rightarrow> (Inl e, w)
      | Inr None \<Rightarrow> (Inr None, py_print (''Failed to load image: '' @ image_path) w)
      | Inr (Some img) \<Rightarrow>
          (case preprocess_image (vision env) img of
             Inl e \<Rightarrow> (Inl e, w)
           | Inr preprocessed \<Rightarrow>
               (case imwrite env (''preprocessed_'' @ basename image_path) preprocessed of
                  Inl e \<Rightarrow> (Inl e, w)
                | Inr written \<Rightarrow>
                    (let w1 = (if written
                               then write_file (''preprocessed_'' @ basename image_path)
                                      (SavedArray preprocessed) w
                               else w);
                         w2 = w1\<lparr>ocr_calls := ocr_calls w1 @ [preprocessed]\<rparr>
                     in case image_to_string env preprocessed of
                          Inl e \<Rightarrow> (Inl e, w2)
                        | Inr text \<Rightarrow> (Inr (Some text), w2)))))"

definition process_image_file :: "env \<Rightarrow> string \<Rightarrow> world \<Rightarrow> string option \<times> world" where
  "process_image_file env image_path w =
     (case image_try env image_path w of
        (Inr r, w') \<Rightarrow> (r, w')
      | (Inl e, w') \<Rightarrow>
          (None, py_print (''Error processing image '' @ image_path @ '': '' @ str_exn e) w'))"

section \<open>The PDF processor\<close>

record page_result =
  page :: nat
  "text" :: string

text \<open>Python's truth value of the \<open>output_folder\<close> argument: \<open>None\<close> and \<open>''\<close> are false.\<close>

fun truthy :: "string option \<Rightarrow> bool" where
  "truthy None = False"
| "truthy (Some s) = (s \<noteq> [])"

definition page_filename :: "nat \<Rightarrow> string" where
  "page_filename page_num = ''page_'' @ str_nat page_num @ ''.jpg''"

definition preprocessed_filename :: "nat \<Rightarrow> string" where
  "preprocessed_filename page_num = ''preprocessed_page_'' @ str_nat page_num @ ''.jpg''"

text \<open>Lines 104 to 112: the two artifacts of one page, written when a folder was asked for.\<close>

definition save_page ::
  "env \<Rightarrow> string option \<Rightarrow> nat \<Rightarrow> pil_image \<Rightarrow> ndarray \<Rightarrow> world \<Rightarrow> (exn + unit) \<times> world" where
  "save_page env output_folder page_num image' preprocessed w =
     (if truthy output_folder then
        (let folder = the output_folder in
         case pil_save env image' (join folder (page_filename page_num)) of
           Some e \<Rightarrow> (Inl e, w)
         | None \<Rightarrow>
             (let w1 = write_file (join folder (page_filename page_num)) (SavedPage image') w in
              case imwrite env (join folder (preprocessed_filename page_num)) preprocessed of
                Inl e \<Rightarrow> (Inl e, w1)
              | Inr written \<Rightarrow>
                  (Inr (), if written
                           then write_file (join folder (preprocessed_filename page_num))
                                  (SavedArray preprocessed) w1
                           else w1)))
      else (Inr (), w))"

text \<open>
  One pass through the body of the \<open>for i, image in enumerate(images)\<close> loop, lines
  94 to 120: \<open>n_images\<close> is \<open>len(images)\<close> and \<open>i\<close> the index of \<open>image\<close>.  The pass
  yields the dictionary it appends to \<open>results\<close>, or the exception that leaves the loop,
  with the world as it is by then.
\<close>

definition page_body ::
  "env \<Rightarrow> string option \<Rightarrow> nat \<Rightarrow> nat \<Rightarrow> pil_image \<Rightarrow> world \<Rightarrow> (exn + page_result) \<times> world" where
  "page_body env output_folder n_images i image' w =
     (let page_num = i + 1;
          w1 = py_print (''Processing page '' @ str_nat page_num @ ''/'' @ str_nat n_images) w;
          img_array = np_array image'
      in case preprocess_image (vision env) img_array of
           Inl e \<Rightarrow> (Inl e, w1)
         | Inr preprocessed \<Rightarrow>
             (case save_page env output_folder page_num image' preprocessed w1 of
                (Inl e, w2) \<Rightarrow> (Inl e, w2)
              | (Inr _, w2) \<Rightarrow>
                  (let w3 = w2\<lparr>ocr_calls := ocr_calls w2 @ [preprocessed]\<rparr> in
                   case image_to_string env preprocessed of
                     Inl e \<Rightarrow> (Inl e, w3)
                   | Inr txt \<Rightarrow> (Inr \<lparr>page = page_num, text = txt\<rparr>, w3))))"

text \<open>The loop itself; \<open>results\<close> is the list built so far.\<close>

fun pdf_pages ::
  "env \<Rightarrow> string option \<Rightarrow> nat \<Rightarrow> nat \<Rightarrow> pil_image list \<Rightarrow> page_result list \<Rightarrow> world
   \<Rightarrow> (exn + page_result list) \<times> world" where
  "pdf_pages env output_folder n_images i [] results w = (Inr results, w)"
| "pdf_pages env output_folder n_images i (image' # rest) results w =
     (case page_body env output_folder n_images i image' w of
        (Inl e, w') \<Rightarrow> (Inl e, w')
      | (Inr r, w') \<Rightarrow> pdf_pages env output_folder n_images (i + 1) rest (results @ [r]) w')"

text \<open>Lines 85 to 91: the folder is created and the PDF rasterized.\<close>

definition pdf_rasterize ::
  "env \<Rightarrow> string \<Rightarrow> string option \<Rightarrow> world \<Rightarrow> (exn + pil_image list) \<times> world" where
  "pdf_rasterize env pdf_path output_folder w =
     (case (if truthy output_folder then makedirs env (the output_folder) else None) of
        Some e \<Rightarrow> (Inl e, w)
      | None \<Rightarrow>
          (let w1 = (if truthy output_folder
                     then w\<lparr>dirs := insert (the output_folder) (dirs w)\<rparr> else w);
               w2 = py_print (''Converting PDF to images: '' @ pdf_path) w1
           in case convert_from_path env pdf_path of
                Inl e \<Rightarrow> (Inl e, w2)
              | Inr images \<Rightarrow> (Inr images, w2)))"

definition pdf_try ::
  "env \<Rightarrow> string \<Rightarrow> string option \<Rightarrow> world \<Rightarrow> (exn + page_result list) \<times> world" where
  "pdf_try env pdf_path output_folder w =
     (case pdf_rasterize env pdf_path output_folder w of
        (Inl e, w1) \<Rightarrow> (Inl e, w1)
      | (Inr images, w1) \<Rightarrow> pdf_pages env output_folder (length images) 0 images [] w1)"

definition process_pdf_file ::
  "env \<Rightarrow> string \<Rightarrow> string option \<Rightarrow> world \<Rightarrow> page_result list \<times> world" where
  "process_pdf_file env pdf_path output_folder w =
     (case pdf_try env pdf_path output_folder w of
        (Inr results, w') \<Rightarrow> (results, w')
      | (Inl e, w') \<Rightarrow>
          ([], py_print (''Error processing PDF '' @ pdf_path @ '': '' @ str_exn e) w'))"

section \<open>The command-line driver\<close>

record args =
  "input" :: string
  "output" :: string
  pages :: bool
  pages_dir :: string

definition separator :: "nat \<Rightarrow> string" where
  "separator n = [CHR 0x0A, CHR 0x0A] @ ''===== PAGE '' @ str_nat n @ '' ====='' @ [CHR 0x0A, CHR 0x0A]"

text \<open>
  The loop of lines 146 to 148 over the page results; \<open>buf\<close> is what has been written to
  the freshly opened file so far.
\<close>

fun write_pages :: "page_result list \<Rightarrow> string \<Rightarrow> string" where
  "write_pages [] buf = buf"
| "write_pages (page_result # rest) buf =
     write_pages rest ((buf @ separator (page page_result)) @ text page_result)"

text \<open>The folder argument of line 142: \<open>args.pages_dir if args.pages else None\<close>.\<close>

definition pdf_folder :: "args \<Rightarrow> string option" where
  "pdf_folder a = (if pages a then Some (pages_dir a) else None)"

text \<open>Lines 141 to 150.  An exception of \<open>open\<close> is not caught and ends \<open>main\<close>.\<close>

definition main_pdf :: "env \<Rightarrow> args \<Rightarrow> world \<Rightarrow> exn option \<times> world" where
  "main_pdf env a w =
     (case process_pdf_file env (input a) (pdf_folder a) w of
        (results, w1) \<Rightarrow>
          (case open_w env (output a) of
             Some e \<Rightarrow> (Some e, w1)
           | None \<Rightarrow>
               (None,
                py_print (''Extracted text from '' @ str_nat (length results)
                          @ '' pages saved to '' @ output a)
                  (write_file (output a) (Text (write_pages results [])) w1))))"

text \<open>Lines 155 to 160: what the driver does with the text it got back.\<close>

definition main_image_tail :: "env \<Rightarrow> args \<Rightarrow> string option \<Rightarrow> world \<Rightarrow> exn option \<times> world" where
  "main_image_tail env a txt w =
     (if truthy txt then
        (case open_w env (output a) of
           Some e \<Rightarrow> (Some e, w)
         | None \<Rightarrow>
             (None, py_print (''Extracted text saved to '' @ output a)
                      (write_file (output a) (Text (the txt)) w)))
      else (None, w))"

definition main_image :: "env \<Rightarrow> args \<Rightarrow> world \<Rightarrow> exn option \<times> world" where
  "main_image env a w =
     (case process_image_file env (input a) w of
        (txt, w1) \<Rightarrow> main_image_tail env a txt w1)"

definition file_ext :: "args \<Rightarrow> string" where
  "file_ext a = lower (snd (splitext (input a)))"

definition main :: "env \<Rightarrow> args \<Rightarrow> world \<Rightarrow> exn option \<times> world" where
  "main env a w =
     (if file_ext a = ''.pdf'' then main_pdf env a w
      else if file_ext a \<in> set [''.jpg'', ''.jpeg'', ''.png'', ''.tiff'', ''.bmp'']
      then main_image env a w
      else (None,
            py_print ''Supported formats: PDF, JPG, JPEG, PNG, TIFF, BMP''
              (py_print (''Unsupported file format: '' @ file_ext a) w)))"

section \<open>Artifacts and sample environments\<close>



text \<open>
  A sample environment for evaluating the model: every call succeeds, the image
  decoder returns a white image of one pixel, the rasterizer a white page of one pixel
  and a dark page of two pixels, and the OCR engine reads \<open>first\<close> on a white image of
  one pixel and \<open>second\<close> on any other.  The sample world has no file, no directory
  and no output yet.
\<close>

definition demo_pages :: "pil_image list" where
  "demo_pages = [PIL (Color [[[255, 255, 255]]]), PIL (Color [[[9, 9, 9], [9, 9, 9]]])]"

definition demo_env :: env where
  "demo_env =
     \<lparr> vision = demo_cv,
       imread = (\<lambda>p. Inr (Some (Color [[[255, 255, 255]]]))),
       imwrite = (\<lambda>p a. Inr True),
       image_to_string = (\<lambda>a. if a = Gray [[255]] then Inr ''first'' else Inr ''second''),
       convert_from_path = (\<lambda>p. Inr demo_pages),
       pil_save = (\<lambda>i p. None),
       makedirs = (\<lambda>p. None),
       open_w = (\<lambda>p. None) \<rparr>"

definition empty_world :: world where
  "empty_world = \<lparr> files = Map.empty, writes = [], dirs = {}, stdout = [], ocr_calls = [] \<rparr>"

text \<open>
  Variants of the sample environment: one whose OCR engine raises on every image; one
  whose OCR engine raises on every image of more than one pixel; one whose OCR engine
  finds no text; one in which neither the image nor the PDF can be read; and one whose
  \<open>imwrite\<close> cannot write and answers \<open>False\<close>.
\<close>

definition ocr_crash_env :: env where
  "ocr_crash_env = demo_env \<lparr> image_to_string := (\<lambda>a. Inl (Exception ''engine crashed'')) \<rparr>"

definition ocr_narrow_env :: env where
  "ocr_narrow_env =
     demo_env
       \<lparr> image_to_string :=
           (\<lambda>a. if a = Gray [[255]] then Inr ''first'' else Inl (Exception ''engine crashed'')) \<rparr>"

definition blank_env :: env where
  "blank_env = demo_env \<lparr> image_to_string := (\<lambda>a. Inr []) \<rparr>"

definition unreadable_env :: env where
  "unreadable_env =
     demo_env
       \<lparr> imread := (\<lambda>p. Inr None),
         convert_from_path := (\<lambda>p. Inl (Exception ''Unable to get page count'')) \<rparr>"

definition no_imwrite_env :: env where
  "no_imwrite_env = demo_env \<lparr> imwrite := (\<lambda>p a. Inr False) \<rparr>"

text \<open>Sample command lines: a PDF run that keeps the page images, and an image run.\<close>

definition demo_pdf_args :: args where
  "demo_pdf_args =
     \<lparr> input = ''scan.PDF'', output = ''out.txt'', pages = True, pages_dir = ''pages'' \<rparr>"

definition demo_image_args :: args where
  "demo_image_args =
     \<lparr> input = ''in/photo.png'', output = ''out.txt'', pages = False,
       pages_dir = ''extracted_pages'' \<rparr>"

section \<open>Properties of the image preprocessor\<close>

declare str_nat.simps [simp del]

lemma pixel_le_255: "(p::pixel) \<le> 255"
proof -
  have "unat p < 2 ^ LENGTH(8)" by (rule unsigned_less)
  then show ?thesis by (simp add: word_le_nat_alt)
qed

lemma min_pixel_255: "min (p::pixel) 255 = p"
  using pixel_le_255 [of p] by (simp add: min_def)

lemma max_pixel_0: "max (p::pixel) 0 = p"
  by (simp add: max_def)

lemma kernel_offsets_ones_1_1: "kernel_offsets (np_ones 1 1) = [(0, 0)]"
  by (simp add: kernel_offsets_def np_ones_def row_len_def)

lemma neighbours_centre:
  "y < length rows \<Longrightarrow> x < length (rows ! y) \<Longrightarrow> neighbours rows [(0, 0)] y x = [rows ! y ! x]"
  by (simp add: neighbours_def)

lemma rows_by_index:
  "map (\<lambda>y. map (\<lambda>x. rows ! y ! x) [0..<length (rows ! y)]) [0..<length rows] = rows"
proof -
  have "map (\<lambda>y. map (\<lambda>x. rows ! y ! x) [0..<length (rows ! y)]) [0..<length rows]
      = map (\<lambda>y. rows ! y) [0..<length rows]"
    by (simp add: map_nth)
  then show ?thesis by (simp add: map_nth)
qed

lemma erode_centre: 
  assumes k: "kernel_offsets k = [(0, 0)]"
  shows "erode rows k = rows"
proof -
  have "erode rows k
      = map (\<lambda>y. map (\<lambda>x. rows ! y ! x) [0..<length (rows ! y)]) [0..<length rows]"
    unfolding erode_def k
    by (intro map_cong refl) (simp add: neighbours_centre min_pixel_255)
  then show ?thesis by (simp only: rows_by_index)
qed

lemma dilate_centre:
  assumes k: "kernel_offsets k = [(0, 0)]"
  shows "dilate rows k = rows"
proof -
  have "dilate rows k
      = map (\<lambda>y. map (\<lambda>x. rows ! y ! x) [0..<length (rows ! y)]) [0..<length rows]"
    unfolding dilate_def k
    by (intro map_cong refl) (simp add: neighbours_centre max_pixel_0)
  then show ?thesis by (simp only: rows_by_index)
qed

lemma morphologyEx_OPEN_ones_1_1:
  "\<not> is_empty (Gray rows) \<Longrightarrow> morphologyEx_OPEN (Gray rows) (np_ones 1 1) = Inr (Gray rows)"
  by (simp add: morphologyEx_OPEN_def erode_centre [OF kernel_offsets_ones_1_1]
        dilate_centre [OF kernel_offsets_ones_1_1] del: One_nat_def)

lemma shape_rows_by_index:
  "shape (Gray (map (\<lambda>y. map (f y) [0..<length (rows ! y)]) [0..<length rows])) = shape (Gray rows)"
  by (cases rows) (simp_all add: row_len_def upt_conv_Cons del: upt_Suc)

lemma adaptiveThreshold_result:
  assumes "adaptiveThreshold cv src m b c = Inr t"
  shows "\<exists>rows. src = Gray rows \<and> \<not> is_empty src
           \<and> t = Gray (map (\<lambda>y. map (\<lambda>x.
                  threshold_pixel m c (gauss_mean cv b rows y x) (rows ! y ! x))
                  [0..<length (rows ! y)]) [0..<length rows])"
  using assms by (cases src) (auto simp: adaptiveThreshold_def split: if_splits)

lemma adaptiveThreshold_Gray:
  assumes "adaptiveThreshold cv src m b c = Inr t"
  shows "\<exists>rows. t = Gray rows \<and> \<not> is_empty t \<and> shape t = shape src"
proof -
  from adaptiveThreshold_result [OF assms] obtain rows where
    src: "src = Gray rows" and ne: "\<not> is_empty src"
    and t: "t = Gray (map (\<lambda>y. map (\<lambda>x.
                  threshold_pixel m c (gauss_mean cv b rows y x) (rows ! y ! x))
                  [0..<length (rows ! y)]) [0..<length rows])"
    by blast
  have "shape t = shape src" unfolding t src by (rule shape_rows_by_index)
  with ne t show ?thesis by (simp add: is_empty_def)
qed

lemma threshold_and_open_eq:
  "threshold_and_open cv gray = adaptiveThreshold cv gray 255 11 2"
proof (cases "adaptiveThreshold cv gray 255 11 2")
  case (Inl e)
  then show ?thesis by (simp add: threshold_and_open_def)
next
  case (Inr t)
  from adaptiveThreshold_Gray [OF Inr] obtain rows where "t = Gray rows" "\<not> is_empty t"
    by blast
  then have "morphologyEx_OPEN t (np_ones 1 1) = Inr t"
    using morphologyEx_OPEN_ones_1_1 [of rows] by simp
  with Inr show ?thesis by (simp add: threshold_and_open_def del: One_nat_def)
qed

text \<open>
  C4.  The morphological opening with the 1x1 structuring element is the identity on
  the thresholded image: for every image and every instance of the library's kernels,
  \<open>preprocess_image\<close> gives what grayscale conversion followed by adaptive thresholding
  alone gives, the raised exception included.
\<close>

theorem opening_1x1_is_identity:
  "preprocess_image cv img = preprocess_without_opening cv img"
  by (simp add: preprocess_image_def preprocess_without_opening_def threshold_and_open_eq
        split: sum.splits)

lemma threshold_pixel_binary: "threshold_pixel 255 c m s = 0 \<or> threshold_pixel 255 c m s = 255"
  by (simp add: threshold_pixel_def)

lemma binary_threshold_rows:
  "binary_image (map (\<lambda>y. map (\<lambda>x. threshold_pixel 255 c (f y x) (g y x)) (xs y)) ys)"
  using threshold_pixel_binary by (auto simp: binary_image_def list_all_iff)

lemma rectangular_rows_by_index:
  assumes "rectangular rows"
  shows "rectangular (map (\<lambda>y. map (f y) [0..<length (rows ! y)]) [0..<length rows])"
proof (cases rows)
  case Nil
  then show ?thesis by (simp add: rectangular_def)
next
  case (Cons r rs)
  have len: "\<And>y. y < length rows \<Longrightarrow> length (rows ! y) = length r"
  proof -
    fix y assume "y < length rows"
    then have "rows ! y \<in> set rows" by (rule nth_mem)
    with assms Cons show "length (rows ! y) = length r"
      by (auto simp: rectangular_def row_len_def list_all_iff)
  qed
  have "row_len (map (\<lambda>y. map (f y) [0..<length (rows ! y)]) [0..<length rows]) = length r"
    using Cons by (simp add: row_len_def upt_conv_Cons del: upt_Suc)
  then show ?thesis using len by (simp add: rectangular_def list_all_iff)
qed

lemma threshold_valid_gray:
  assumes "rows \<noteq> []" "row_len rows \<noteq> 0"
  shows "threshold_and_open cv (Gray rows)
       = Inr (Gray (map (\<lambda>y. map (\<lambda>x.
                  threshold_pixel 255 2 (gauss_mean cv 11 rows y x) (rows ! y ! x))
                  [0..<length (rows ! y)]) [0..<length rows]))"
  using assms by (simp add: threshold_and_open_eq adaptiveThreshold_def is_empty_def)

lemma cvtColor_valid:
  assumes "valid_image (Color rows)"
  shows "cvtColor_BGR2GRAY cv (Color rows) = Inr (Gray (map (map (gray_of_pixel cv)) rows))"
proof -
  from assms obtain r rs where rows: "rows = r # rs" by (cases rows) auto
  with assms obtain px pxs where r: "r = px # pxs" by (cases r) (auto simp: row_len_def)
  from assms rows r have "length px = 3" by simp
  with rows r show ?thesis
    by (simp add: cvtColor_BGR2GRAY_def is_empty_def row_len_def)
qed

text \<open>
  C3.  For every valid single-channel or three-channel image, \<open>preprocess_image\<close>
  returns (without raising) a single-channel image in which every pixel is 0 or 255,
  with the height and width of the grayscale-converted input, which are those of the
  input itself.
\<close>

theorem preprocess_image_binary_same_size:
  assumes "valid_image img"
  shows "\<exists>gray out. grayscale_step cv img = Inr gray
           \<and> preprocess_image cv img = Inr (Gray out)
           \<and> binary_image out \<and> rectangular out
           \<and> shape (Gray out) = shape gray
           \<and> shape (Gray out) = take 2 (shape img)"
proof (cases img)
  case (Gray rows)
  with assms have v: "rows \<noteq> []" "row_len rows \<noteq> 0" "rectangular rows" by simp_all
  let ?out = "map (\<lambda>y. map (\<lambda>x.
                  threshold_pixel 255 2 (gauss_mean cv 11 rows y x) (rows ! y ! x))
                  [0..<length (rows ! y)]) [0..<length rows]"
  have g: "grayscale_step cv img = Inr img" by (simp add: grayscale_step_def Gray)
  have p: "preprocess_image cv img = Inr (Gray ?out)"
    by (simp add: preprocess_image_def g) (simp add: Gray threshold_valid_gray [OF v(1,2)])
  have b: "binary_image ?out" by (rule binary_threshold_rows)
  have r: "rectangular ?out" by (rule rectangular_rows_by_index [OF v(3)])
  have s: "shape (Gray ?out) = shape img" unfolding Gray by (rule shape_rows_by_index)
  have "shape (Gray ?out) = take 2 (shape img)" using s by (simp add: Gray)
  with g p b r s show ?thesis by blast
next
  case (Color rows)
  with assms have v: "rows \<noteq> []" "row_len rows \<noteq> 0" "rectangular rows" by simp_all
  let ?gray = "map (map (gray_of_pixel cv)) rows"
  let ?out = "map (\<lambda>y. map (\<lambda>x.
                  threshold_pixel 255 2 (gauss_mean cv 11 ?gray y x) (?gray ! y ! x))
                  [0..<length (?gray ! y)]) [0..<length ?gray]"
  have v': "?gray \<noteq> []" "row_len ?gray \<noteq> 0" "rectangular ?gray"
    using v by (cases rows; simp add: row_len_def rectangular_def list_all_iff)+
  have g: "grayscale_step cv img = Inr (Gray ?gray)"
    using assms by (simp add: grayscale_step_def Color cvtColor_valid)
  have p: "preprocess_image cv img = Inr (Gray ?out)"
    by (simp add: preprocess_image_def g) (simp add: threshold_valid_gray [OF v'(1,2)])
  have b: "binary_image ?out" by (rule binary_threshold_rows)
  have r: "rectangular ?out" by (rule rectangular_rows_by_index [OF v'(3)])
  have s: "shape (Gray ?out) = shape (Gray ?gray)" by (rule shape_rows_by_index)
  have "shape (Gray ?out) = take 2 (shape img)"
    using s v by (cases rows; simp add: Color row_len_def)
  with g p b r s show ?thesis by blast
qed

theorem preprocess_image_binary_same_size_witness:
  "valid_image (Color [[[1, 2, 3], [200, 100, 50]], [[255, 255, 255], [0, 0, 0]]])
   \<and> (\<exists>gray out.
         grayscale_step demo_cv (Color [[[1, 2, 3], [200, 100, 50]], [[255, 255, 255], [0, 0, 0]]])
           = Inr gray
         \<and> preprocess_image demo_cv
             (Color [[[1, 2, 3], [200, 100, 50]], [[255, 255, 255], [0, 0, 0]]]) = Inr (Gray out)
         \<and> binary_image out \<and> rectangular out
         \<and> shape (Gray out) = shape gray
         \<and> shape (Gray out)
             = take 2 (shape (Color [[[1, 2, 3], [200, 100, 50]], [[255, 255, 255], [0, 0, 0]]])))"
proof -
  have v: "valid_image (Color [[[1, 2, 3], [200, 100, 50]], [[255, 255, 255], [0, 0, 0]]])"
    by (simp add: rectangular_def row_len_def)
  from preprocess_image_binary_same_size [OF v, of demo_cv] v show ?thesis by blast
qed

text \<open>
  C5, as stated, fails: the test of line 22 is on the number of dimensions of the
  array, not on the number of colour channels.  A one-pixel image with four channels
  (blue, green, red, alpha) does not have three colour channels, yet it is sent through
  the conversion and comes out as a single-channel image instead of being passed on
  unchanged.
\<close>

theorem grayscale_step_four_channels:
  "channels (Color [[[1, 2, 3, 4]]]) \<noteq> 3
   \<and> grayscale_step demo_cv (Color [[[1, 2, 3, 4]]])
       = cvtColor_BGR2GRAY demo_cv (Color [[[1, 2, 3, 4]]])
   \<and> grayscale_step demo_cv (Color [[[1, 2, 3, 4]]]) = Inr (Gray [[2]])
   \<and> grayscale_step demo_cv (Color [[[1, 2, 3, 4]]]) \<noteq> Inr (Color [[[1, 2, 3, 4]]])"
  by (simp add: grayscale_step_def cvtColor_BGR2GRAY_def is_empty_def row_len_def demo_cv_def)

text \<open>
  C5, amended.  \<open>preprocess_image\<close> applies the grayscale conversion exactly when the
  input array has three dimensions (height, width, channels), whatever the number of
  channels; a two-dimensional (height by width) array is passed unchanged into the
  thresholding step and is never sent through the conversion.
\<close>

theorem grayscale_step_by_dimensions:
  "length (shape (Color crows)) = 3
   \<and> grayscale_step cv (Color crows) = cvtColor_BGR2GRAY cv (Color crows)
   \<and> preprocess_image cv (Color crows)
       = (case cvtColor_BGR2GRAY cv (Color crows) of
            Inl e \<Rightarrow> Inl e
          | Inr gray \<Rightarrow> threshold_and_open cv gray)
   \<and> length (shape (Gray grows)) = 2
   \<and> grayscale_step cv (Gray grows) = Inr (Gray grows)
   \<and> preprocess_image cv (Gray grows) = threshold_and_open cv (Gray grows)"
  by (simp add: grayscale_step_def preprocess_image_def)

section \<open>Properties of the processors and the driver\<close>

lemma page_body_page:
  "page_body env f n i im w = (Inr r, w') \<Longrightarrow> page r = i + 1"
  by (auto simp: page_body_def Let_def split: sum.splits prod.splits)

lemma pdf_pages_results:
  "pdf_pages env f n i images results w = (Inr rs, w') \<Longrightarrow>
     \<exists>new. rs = results @ new \<and> length new = length images
         \<and> map page new = [Suc i..<Suc i + length images]"
proof (induction images arbitrary: i results w)
  case Nil
  then show ?case by simp
next
  case (Cons im rest)
  from Cons.prems obtain r w1 where
    b: "page_body env f n i im w = (Inr r, w1)"
    and l: "pdf_pages env f n (i + 1) rest (results @ [r]) w1 = (Inr rs, w')"
    by (auto split: sum.splits prod.splits)
  from Cons.IH [OF l] obtain new where
    n: "rs = (results @ [r]) @ new" "length new = length rest"
       "map page new = [Suc (i + 1)..<Suc (i + 1) + length rest]"
    by blast
  have "page r = Suc i" using page_body_page [OF b] by simp
  with n have "rs = results @ (r # new) \<and> length (r # new) = length (im # rest)
      \<and> map page (r # new) = [Suc i..<Suc i + length (im # rest)]"
    by (simp add: upt_conv_Cons del: upt_Suc)
  then show ?case by blast
qed

lemma write_pages_concat:
  "write_pages rs buf = buf @ concat (map (\<lambda>r. separator (page r) @ text r) rs)"
  by (induction rs arbitrary: buf) simp_all





lemma process_pdf_file_success:
  assumes rast: "fst (pdf_rasterize env pdf_path folder w) = Inr images"
    and loop: "fst (pdf_pages env folder (length images) 0 images []
                     (snd (pdf_rasterize env pdf_path folder w))) = Inr rs"
  shows "process_pdf_file env pdf_path folder w
       = (rs, snd (pdf_pages env folder (length images) 0 images []
                     (snd (pdf_rasterize env pdf_path folder w))))"
  using rast loop
  by (cases "pdf_rasterize env pdf_path folder w";
      cases "pdf_pages env folder (length images) 0 images []
                     (snd (pdf_rasterize env pdf_path folder w))")
     (simp add: process_pdf_file_def pdf_try_def)

lemma process_pdf_file_failure:
  assumes rast: "fst (pdf_rasterize env pdf_path folder w) = Inr images"
    and loop: "fst (pdf_pages env folder (length images) 0 images []
                     (snd (pdf_rasterize env pdf_path folder w))) = Inl e"
  shows "process_pdf_file env pdf_path folder w
       = ([], py_print (''Error processing PDF '' @ pdf_path @ '': '' @ str_exn e)
                (snd (pdf_pages env folder (length images) 0 images []
                       (snd (pdf_rasterize env pdf_path folder w)))))"
  using rast loop
  by (cases "pdf_rasterize env pdf_path folder w";
      cases "pdf_pages env folder (length images) 0 images []
                     (snd (pdf_rasterize env pdf_path folder w))")
     (simp add: process_pdf_file_def pdf_try_def)

lemma main_pdf_output:
  assumes ext: "file_ext a = ''.pdf''" and opn: "open_w env (output a) = None"
  shows "main env a w
       = (None,
          py_print (''Extracted text from ''
                    @ str_nat (length (fst (process_pdf_file env (input a) (pdf_folder a) w)))
                    @ '' pages saved to '' @ output a)
            (write_file (output a)
               (Text (write_pages (fst (process_pdf_file env (input a) (pdf_folder a) w)) []))
               (snd (process_pdf_file env (input a) (pdf_folder a) w))))"
  using ext opn by (simp add: main_def main_pdf_def split: prod.splits)

lemma separator_text:
  "separator n = ''\<newline>\<newline>===== PAGE '' @ str_nat n @ '' =====\<newline>\<newline>''"
  by (simp add: separator_def)

text \<open>
  C1.  When the rasterization of a PDF yields the page images \<open>images\<close> and the
  per-page loop completes without exception, \<open>process_pdf_file\<close> returns exactly one
  result per image, numbered 1 to N in ascending order, and the output file that
  \<open>main\<close> writes (the output path being one that can be opened) consists, in that
  order, of one piece per page: two newlines, the separator line \<open>===== PAGE k =====\<close>
  with the decimal page number, two newlines, and immediately after them the page's
  text.
\<close>

theorem pdf_results_numbered_in_order:
  assumes ext: "file_ext a = ''.pdf''"
    and rast: "fst (pdf_rasterize env (input a) (pdf_folder a) w) = Inr images"
    and loop: "fst (pdf_pages env (pdf_folder a) (length images) 0 images []
                     (snd (pdf_rasterize env (input a) (pdf_folder a) w))) = Inr rs"
    and opn: "open_w env (output a) = None"
  shows "fst (process_pdf_file env (input a) (pdf_folder a) w) = rs
       \<and> length rs = length images
       \<and> map page rs = [1..<Suc (length images)]
       \<and> fst (main env a w) = None
       \<and> files (snd (main env a w)) (output a)
           = Some (Text (concat (map
               (\<lambda>r. ''\<newline>\<newline>===== PAGE '' @ str_nat (page r)
                    @ '' =====\<newline>\<newline>'' @ text r) rs)))"
proof -
  let ?w1 = "snd (pdf_rasterize env (input a) (pdf_folder a) w)"
  let ?l = "pdf_pages env (pdf_folder a) (length images) 0 images [] ?w1"
  have p: "fst (process_pdf_file env (input a) (pdf_folder a) w) = rs"
    by (simp add: process_pdf_file_success [OF rast loop])
  have "?l = (Inr rs, snd ?l)" using loop by (cases ?l) simp
  from pdf_pages_results [OF this] have n: "length rs = length images"
    and m: "map page rs = [1..<Suc (length images)]" by auto
  have "main env a w = (None,
          py_print (''Extracted text from '' @ str_nat (length rs) @ '' pages saved to '' @ output a)
            (write_file (output a) (Text (write_pages rs []))
               (snd (process_pdf_file env (input a) (pdf_folder a) w))))"
    using main_pdf_output [OF ext opn, of w] p by simp
  then have "fst (main env a w) = None"
    and "files (snd (main env a w)) (output a) = Some (Text (write_pages rs []))"
    by (simp_all add: py_print_def write_file_def)
  with p n m show ?thesis by (simp add: write_pages_concat separator_text)
qed

lemma page_body_raises:
  assumes "preprocess_image (vision env) (np_array im) = Inl e
         \<or> (\<exists>pre. preprocess_image (vision env) (np_array im) = Inr pre
               \<and> ((truthy f \<and> pil_save env im (join (the f) (page_filename (Suc i))) = Some e)
                  \<or> (truthy f
                      \<and> imwrite env (join (the f) (preprocessed_filename (Suc i))) pre = Inl e)
                  \<or> image_to_string env pre = Inl e))"
  shows "\<exists>e'. fst (page_body env f n i im w) = Inl e'"
  using assms
  by (auto simp: page_body_def save_page_def Let_def split: sum.splits option.splits prod.splits)

lemma pdf_pages_raises:
  assumes "k < length images"
    and "\<And>w. \<exists>e. fst (page_body env f n (i + k) (images ! k) w) = Inl e"
  shows "\<exists>e. fst (pdf_pages env f n i images results w) = Inl e"
  using assms
proof (induction images arbitrary: i k results w)
  case Nil
  then show ?case by simp
next
  case (Cons im rest)
  show ?case
  proof (cases "page_body env f n i im w")
    case (Pair r w1)
    show ?thesis
    proof (cases r)
      case (Inl e)
      with Pair show ?thesis by simp
    next
      case (Inr x)
      show ?thesis
      proof (cases k)
        case 0
        with Cons.prems(2) [of w] Pair Inr show ?thesis by simp
      next
        case (Suc k')
        with Cons.prems have k': "k' < length rest"
          and b: "\<And>w. \<exists>e. fst (page_body env f n (i + 1 + k') (rest ! k') w) = Inl e"
          by simp_all
        from Cons.IH [OF k' b, of "results @ [x]" w1] Pair Inr show ?thesis by simp
      qed
    qed
  qed
qed

text \<open>
  C2.  When the rasterization of a PDF has yielded its page images and anything raises
  in the pass of the loop over some page (the preprocessing of the page, the saving of
  either artifact, or the OCR of the preprocessed page), \<open>process_pdf_file\<close> returns
  the empty list, whichever page it is and whatever was collected for the pages before
  it, and its last printed line is the error with the path of the PDF.
\<close>

theorem pdf_loop_exception_returns_empty:
  assumes rast: "fst (pdf_rasterize env pdf_path folder w) = Inr images"
    and k: "k < length images"
    and raises:
      "preprocess_image (vision env) (np_array (images ! k)) = Inl e
       \<or> (\<exists>pre. preprocess_image (vision env) (np_array (images ! k)) = Inr pre
             \<and> ((truthy folder
                   \<and> pil_save env (images ! k) (join (the folder) (page_filename (Suc k))) = Some e)
                \<or> (truthy folder
                    \<and> imwrite env (join (the folder) (preprocessed_filename (Suc k))) pre = Inl e)
                \<or> image_to_string env pre = Inl e))"
  shows "fst (process_pdf_file env pdf_path folder w) = []
       \<and> (\<exists>e'. last (stdout (snd (process_pdf_file env pdf_path folder w)))
                  = ''Error processing PDF '' @ pdf_path @ '': '' @ str_exn e')"
proof -
  have "\<And>w'. \<exists>e'. fst (page_body env folder (length images) (0 + k) (images ! k) w') = Inl e'"
    using page_body_raises [OF raises] by simp
  from pdf_pages_raises [OF k this]
  obtain e' where "fst (pdf_pages env folder (length images) 0 images []
                          (snd (pdf_rasterize env pdf_path folder w))) = Inl e'"
    by blast
  from process_pdf_file_failure [OF rast this] show ?thesis
    by (auto simp: py_print_def)
qed

text \<open>
  C6.  For an input path whose lower-cased extension is none of the supported ones,
  \<open>main\<close> prints the unsupported extension and the supported formats and does nothing
  else: no file is written, no directory created and the OCR engine is not invoked.
\<close>

theorem unsupported_extension_writes_nothing:
  assumes "file_ext a \<notin> {''.pdf'', ''.jpg'', ''.jpeg'', ''.png'', ''.tiff'', ''.bmp''}"
  shows "main env a w
       = (None, w\<lparr>stdout := stdout w @ [''Unsupported file format: '' @ file_ext a,
                                        ''Supported formats: PDF, JPG, JPEG, PNG, TIFF, BMP'']\<rparr>)
       \<and> files (snd (main env a w)) = files w
       \<and> dirs (snd (main env a w)) = dirs w
       \<and> ocr_calls (snd (main env a w)) = ocr_calls w"
  using assms by (simp add: main_def py_print_def)



lemma image_try_writes:
  "writes (snd (image_try env p w)) = writes w
   \<or> writes (snd (image_try env p w)) = writes w @ [''preprocessed_'' @ basename p]"
  by (simp add: image_try_def py_print_def write_file_def Let_def
        split: sum.splits option.splits)

lemma image_try_load_failure:
  "imread env p = Inr None \<Longrightarrow>
     image_try env p w = (Inr None, py_print (''Failed to load image: '' @ p) w)"
  by (simp add: image_try_def)

lemma image_try_exception_stdout:
  "fst (image_try env p w) = Inl e \<Longrightarrow> stdout (snd (image_try env p w)) = stdout w"
  by (auto simp: image_try_def py_print_def write_file_def Let_def
        split: sum.splits option.splits)

lemma process_image_file_exception:
  assumes "fst (image_try env p w) = Inl e"
  shows "process_image_file env p w
       = (None, py_print (''Error processing image '' @ p @ '': '' @ str_exn e)
                  (snd (image_try env p w)))"
  using assms by (cases "image_try env p w") (simp add: process_image_file_def)

lemma process_image_file_writes:
  "writes (snd (process_image_file env p w)) = writes w
   \<or> writes (snd (process_image_file env p w)) = writes w @ [''preprocessed_'' @ basename p]"
  using image_try_writes [of env p w]
  by (cases "image_try env p w") (auto simp: process_image_file_def py_print_def split: sum.splits)

lemma main_image_run:
  assumes "file_ext a \<in> set [''.jpg'', ''.jpeg'', ''.png'', ''.tiff'', ''.bmp'']"
  shows "main env a w
       = main_image_tail env a (fst (process_image_file env (input a) w))
           (snd (process_image_file env (input a) w))"
  using assms by (auto simp: main_def main_image_def split: prod.splits)

lemma failed_image_run:
  assumes ext: "file_ext a \<in> set [''.jpg'', ''.jpeg'', ''.png'', ''.tiff'', ''.bmp'']"
    and fail: "imread env (input a) = Inr None \<or> (\<exists>e. fst (image_try env (input a) w) = Inl e)"
  shows "fst (process_image_file env (input a) w) = None"
    and "stdout (snd (process_image_file env (input a) w))
            = stdout w @ [''Failed to load image: '' @ input a]
          \<or> (\<exists>e. stdout (snd (process_image_file env (input a) w))
                 = stdout w @ [''Error processing image '' @ input a @ '': '' @ str_exn e])"
    and "main env a w = (None, snd (process_image_file env (input a) w))"
proof -
  let ?r = "process_image_file env (input a) w"
  from fail show none: "fst ?r = None"
  proof
    assume "imread env (input a) = Inr None"
    then show ?thesis by (simp add: process_image_file_def image_try_load_failure)
  next
    assume "\<exists>e. fst (image_try env (input a) w) = Inl e"
    then obtain e where "fst (image_try env (input a) w) = Inl e" ..
    then show ?thesis by (simp add: process_image_file_exception)
  qed
  from fail show "stdout (snd ?r) = stdout w @ [''Failed to load image: '' @ input a]
        \<or> (\<exists>e. stdout (snd ?r)
               = stdout w @ [''Error processing image '' @ input a @ '': '' @ str_exn e])"
  proof
    assume "imread env (input a) = Inr None"
    then show ?thesis
      by (simp add: process_image_file_def image_try_load_failure py_print_def)
  next
    assume "\<exists>e. fst (image_try env (input a) w) = Inl e"
    then obtain e where e: "fst (image_try env (input a) w) = Inl e" ..
    then have "stdout (snd ?r)
               = stdout w @ [''Error processing image '' @ input a @ '': '' @ str_exn e]"
      by (simp add: process_image_file_exception image_try_exception_stdout py_print_def)
    then show ?thesis by blast
  qed
  show "main env a w = (None, snd ?r)"
    using main_image_run [OF ext, of env w] none by (simp add: main_image_tail_def)
qed

lemma image_try_raises:
  assumes "imread env p = Inl e
         \<or> (\<exists>img. imread env p = Inr (Some img)
               \<and> (preprocess_image (vision env) img = Inl e
                  \<or> (\<exists>pre. preprocess_image (vision env) img = Inr pre
                        \<and> (imwrite env (''preprocessed_'' @ basename p) pre = Inl e
                           \<or> image_to_string env pre = Inl e))))"
  shows "\<exists>e'. fst (image_try env p w) = Inl e'"
  using assms
  by (auto simp: image_try_def Let_def split: sum.splits option.splits)

text \<open>
  C7, amended.  For a single-image input whose load fails (the decoder returns no
  image) or whose processing raises (in the decoder, the preprocessing, the writing of
  the side artifact or the OCR), \<open>process_image_file\<close> prints a line with the
  offending path and returns \<open>None\<close> without raising; \<open>main\<close> then writes nothing and
  prints nothing of its own.  After a load failure the run has written no file at all.
  After an exception the only write the run can have made is that of the side artifact
  \<open>preprocessed_<basename>\<close> in the working directory (line 60, before OCR); so the
  output file is untouched unless the output path names that file.
\<close>

theorem image_failure_leaves_output:
  assumes ext: "file_ext a \<in> set [''.jpg'', ''.jpeg'', ''.png'', ''.tiff'', ''.bmp'']"
    and fail:
      "imread env (input a) = Inr None
       \<or> imread env (input a) = Inl e
       \<or> (\<exists>img. imread env (input a) = Inr (Some img)
             \<and> (preprocess_image (vision env) img = Inl e
                \<or> (\<exists>pre. preprocess_image (vision env) img = Inr pre
                      \<and> (imwrite env (''preprocessed_'' @ basename (input a)) pre = Inl e
                         \<or> image_to_string env pre = Inl e))))"
  shows "fst (process_image_file env (input a) w) = None
       \<and> (stdout (snd (process_image_file env (input a) w))
            = stdout w @ [''Failed to load image: '' @ input a]
          \<or> (\<exists>e'. stdout (snd (process_image_file env (input a) w))
                 = stdout w @ [''Error processing image '' @ input a @ '': '' @ str_exn e']))
       \<and> main env a w = (None, snd (process_image_file env (input a) w))
       \<and> (writes (snd (main env a w)) = writes w
          \<or> writes (snd (main env a w)) = writes w @ [''preprocessed_'' @ basename (input a)])
       \<and> (imread env (input a) = Inr None
            \<longrightarrow> writes (snd (main env a w)) = writes w \<and> files (snd (main env a w)) = files w)"
proof -
  have f: "imread env (input a) = Inr None \<or> (\<exists>e'. fst (image_try env (input a) w) = Inl e')"
    using fail image_try_raises [of env "input a" e w] by blast
  note r = failed_image_run [OF ext f]
  have wr: "writes (snd (main env a w)) = writes w
          \<or> writes (snd (main env a w)) = writes w @ [''preprocessed_'' @ basename (input a)]"
    using process_image_file_writes [of env "input a" w] by (simp add: r(3))
  have l: "imread env (input a) = Inr None
            \<longrightarrow> writes (snd (main env a w)) = writes w \<and> files (snd (main env a w)) = files w"
    by (simp add: r(3) process_image_file_def image_try_load_failure py_print_def)
  from r wr l show ?thesis by blast
qed

text \<open>
  C9, amended.  When loading and OCR succeed but the OCR engine returns the empty
  string, \<open>main\<close> opens no output file and prints no success message: the driver
  tests the text for truthiness and treats the empty text as it treats the absent
  result, in any world.  The run is not indistinguishable from a failure, though: it
  prints nothing at all, where every load or processing failure on the same command
  line prints an error line, and it has called the OCR engine and written the side
  artifact (if \<open>imwrite\<close> could write it).
\<close>

theorem empty_text_writes_no_output:
  assumes ext: "file_ext a \<in> set [''.jpg'', ''.jpeg'', ''.png'', ''.tiff'', ''.bmp'']"
    and rd: "imread env (input a) = Inr (Some img)"
    and pre: "preprocess_image (vision env) img = Inr preprocessed"
    and wr: "imwrite env (''preprocessed_'' @ basename (input a)) preprocessed = Inr written"
    and ocr: "image_to_string env preprocessed = Inr []"
  shows "fst (process_image_file env (input a) w) = Some []
       \<and> main env a w = (None, snd (process_image_file env (input a) w))
       \<and> stdout (snd (main env a w)) = stdout w
       \<and> writes (snd (main env a w))
           = writes w @ (if written then [''preprocessed_'' @ basename (input a)] else [])
       \<and> ocr_calls (snd (main env a w)) = ocr_calls w @ [preprocessed]
       \<and> main_image_tail env a (Some []) w' = main_image_tail env a None w'
       \<and> (\<forall>env'. imread env' (input a) = Inr None
                     \<or> (\<exists>e. fst (image_try env' (input a) w) = Inl e)
                 \<longrightarrow> stdout (snd (main env' a w)) \<noteq> stdout (snd (main env a w)))"
proof -
  let ?r = "process_image_file env (input a) w"
  have p: "fst ?r = Some []" "stdout (snd ?r) = stdout w"
    "writes (snd ?r) = writes w @ (if written then [''preprocessed_'' @ basename (input a)] else [])"
    "ocr_calls (snd ?r) = ocr_calls w @ [preprocessed]"
    using rd pre wr ocr
    by (simp_all add: process_image_file_def image_try_def write_file_def)
  have m: "main env a w = (None, snd ?r)"
    using main_image_run [OF ext, of env w] by (simp add: p main_image_tail_def)
  have d: "\<forall>env'. imread env' (input a) = Inr None
                     \<or> (\<exists>e. fst (image_try env' (input a) w) = Inl e)
                 \<longrightarrow> stdout (snd (main env' a w)) \<noteq> stdout (snd (main env a w))"
  proof (intro allI impI)
    fix env'
    assume f: "imread env' (input a) = Inr None \<or> (\<exists>e. fst (image_try env' (input a) w) = Inl e)"
    from failed_image_run(2,3) [OF ext f]
    obtain msg where "stdout (snd (main env' a w)) = stdout w @ [msg]" by auto
    then show "stdout (snd (main env' a w)) \<noteq> stdout (snd (main env a w))"
      by (simp add: m p)
  qed
  have t: "main_image_tail env a (Some []) w' = main_image_tail env a None w'"
    by (simp add: main_image_tail_def)
  from p m d t show ?thesis by simp
qed

























section \<open>The model on the sample environments\<close>

lemma gauss_taps_sum: "(\<Sum>j\<leftarrow>[0..<11]. gauss_taps ! j) = 256"
proof -
  have l: "length gauss_taps = 11" by (simp add: gauss_taps_def)
  have "map (\<lambda>j. gauss_taps ! j) [0..<length gauss_taps] = gauss_taps" by (rule map_nth)
  then have "(\<Sum>j\<leftarrow>[0..<11]. gauss_taps ! j) = sum_list gauss_taps" by (simp only: l)
  then show ?thesis by (simp add: gauss_taps_def)
qed

lemma replicate_index_less: "0 < n \<Longrightarrow> replicate_index n i < n"
  by (auto simp: replicate_index_def)

lemma gaussian_mean_one_colour:
  assumes flat: "\<And>y x. y < length rows \<Longrightarrow> x < row_len rows \<Longrightarrow> rows ! y ! x = p"
    and ne: "0 < length rows" "0 < row_len rows"
  shows "gaussian_mean blockSize rows y x = p"
proof -
  have px: "\<And>i j. rows ! replicate_index (length rows) i ! replicate_index (row_len rows) j = p"
    using ne by (intro flat replicate_index_less)
  have inner: "\<And>i. (\<Sum>j\<leftarrow>[0..<11]. gauss_taps ! i * gauss_taps ! j * unat p)
                  = gauss_taps ! i * (256 * unat p)"
  proof -
    fix i
    have "(\<Sum>j\<leftarrow>[0..<11]. gauss_taps ! i * gauss_taps ! j * unat p)
        = (\<Sum>j\<leftarrow>[0..<11]. (gauss_taps ! i * unat p) * (gauss_taps ! j))"
      by (simp add: ac_simps)
    also have "\<dots> = (gauss_taps ! i * unat p) * (\<Sum>j\<leftarrow>[0..<11]. gauss_taps ! j)"
      by (rule sum_list_const_mult)
    finally show "(\<Sum>j\<leftarrow>[0..<11]. gauss_taps ! i * gauss_taps ! j * unat p)
                  = gauss_taps ! i * (256 * unat p)"
      by (simp add: gauss_taps_sum ac_simps)
  qed
  have "(\<Sum>i\<leftarrow>[0..<11]. gauss_taps ! i * (256 * unat p))
      = (\<Sum>i\<leftarrow>[0..<11]. gauss_taps ! i) * (256 * unat p)"
    by (rule sum_list_mult_const)
  then have total: "(\<Sum>i\<leftarrow>[0..<11]. \<Sum>j\<leftarrow>[0..<11]. gauss_taps ! i * gauss_taps ! j * unat p)
      = 65536 * unat p"
    by (simp add: inner gauss_taps_sum)
  have "(65536 * unat p + 32768) div 65536 = unat p" by simp
  then show ?thesis
    by (simp add: gaussian_mean_def px total)
qed

lemma demo_gaussian_mean:
  "gaussian_mean 11 [[255]] y x = 255"
  "gaussian_mean 11 [[9, 9]] y x = 9"
proof -
  show "gaussian_mean 11 [[255]] y x = 255"
    by (rule gaussian_mean_one_colour) (simp_all add: row_len_def)
  show "gaussian_mean 11 [[9, 9]] y x = 9"
    by (rule gaussian_mean_one_colour) (auto simp: row_len_def less_Suc_eq)
qed

lemma demo_preprocess:
  "preprocess_image demo_cv (Color [[[255, 255, 255]]]) = Inr (Gray [[255]])"
  "preprocess_image demo_cv (Color [[[9, 9, 9], [9, 9, 9]]]) = Inr (Gray [[255, 255]])"
  by (simp_all add: preprocess_image_def grayscale_step_def cvtColor_BGR2GRAY_def is_empty_def
        row_len_def demo_cv_def threshold_and_open_eq adaptiveThreshold_def threshold_pixel_def
        demo_gaussian_mean)

lemma str_nat_digits:
  "str_nat 0 = ''0''" "str_nat 1 = ''1''" "str_nat 2 = ''2''"
  "str_nat (Suc 0) = ''1''" "str_nat (Suc (Suc 0)) = ''2''"
  by (simp_all add: str_nat.simps digit_char_def)

lemmas run_defs =
  process_pdf_file_def pdf_try_def pdf_rasterize_def page_body_def save_page_def py_print_def
  write_file_def process_image_file_def image_try_def main_def main_pdf_def main_image_def
  main_image_tail_def file_ext_def splitext_def lower_def lower_char_def basename_def join_def
  pdf_folder_def page_filename_def preprocessed_filename_def separator_def

lemmas demo_defs =
  demo_env_def ocr_crash_env_def ocr_narrow_env_def blank_env_def unreadable_env_def
  no_imwrite_env_def demo_pdf_args_def demo_image_args_def empty_world_def demo_pages_def

lemma demo_file_ext:
  "file_ext demo_pdf_args = ''.pdf''"
  "file_ext demo_image_args = ''.png''"
  "file_ext (demo_image_args\<lparr>output := ''preprocessed_photo.png''\<rparr>) = ''.png''"
  "file_ext (demo_image_args\<lparr>input := ''notes.TXT''\<rparr>) = ''.txt''"
  "file_ext (demo_pdf_args\<lparr>pages_dir := []\<rparr>) = ''.pdf''"
  by (simp_all add: demo_defs file_ext_def splitext_def lower_def lower_char_def)

text \<open>
  A two-page PDF in the sample environment: two results, numbered 1 and 2, and an
  output file of two separator lines, each before its page's text.
\<close>

theorem pdf_results_numbered_in_order_witness:
  "file_ext demo_pdf_args = ''.pdf''
   \<and> fst (pdf_rasterize demo_env (input demo_pdf_args) (pdf_folder demo_pdf_args) empty_world)
       = Inr demo_pages
   \<and> fst (pdf_pages demo_env (pdf_folder demo_pdf_args) (length demo_pages) 0 demo_pages []
             (snd (pdf_rasterize demo_env (input demo_pdf_args) (pdf_folder demo_pdf_args)
                     empty_world)))
       = Inr [\<lparr>page = 1, text = ''first''\<rparr>, \<lparr>page = 2, text = ''second''\<rparr>]
   \<and> open_w demo_env (output demo_pdf_args) = None
   \<and> fst (process_pdf_file demo_env (input demo_pdf_args) (pdf_folder demo_pdf_args) empty_world)
       = [\<lparr>page = 1, text = ''first''\<rparr>, \<lparr>page = 2, text = ''second''\<rparr>]
   \<and> fst (main demo_env demo_pdf_args empty_world) = None
   \<and> files (snd (main demo_env demo_pdf_args empty_world)) ''out.txt''
       = Some (Text (''\<newline>\<newline>===== PAGE 1 =====\<newline>\<newline>first''
                     @ ''\<newline>\<newline>===== PAGE 2 =====\<newline>\<newline>second''))"
proof -
  have h1: "file_ext demo_pdf_args = ''.pdf''" by (rule demo_file_ext)
  have h2: "fst (pdf_rasterize demo_env (input demo_pdf_args) (pdf_folder demo_pdf_args) empty_world)
       = Inr demo_pages"
    by (simp add: pdf_rasterize_def demo_env_def demo_pdf_args_def empty_world_def pdf_folder_def)
  have h3: "fst (pdf_pages demo_env (pdf_folder demo_pdf_args) (length demo_pages) 0 demo_pages []
             (snd (pdf_rasterize demo_env (input demo_pdf_args) (pdf_folder demo_pdf_args)
                     empty_world)))
       = Inr [\<lparr>page = 1, text = ''first''\<rparr>, \<lparr>page = 2, text = ''second''\<rparr>]"
    by (simp add: run_defs demo_defs demo_preprocess)
  have h4: "open_w demo_env (output demo_pdf_args) = None" by (simp add: demo_defs)
  from pdf_results_numbered_in_order [OF h1 h2 h3 h4] h1 h2 h3 h4 show ?thesis
    by (simp add: demo_pdf_args_def str_nat_digits)
qed

text \<open>
  The OCR engine raises on the second page of a two-page PDF, after the first page
  was processed and its result collected: the engine was called on both pages, yet
  the result is the empty list.
\<close>

theorem pdf_loop_exception_returns_empty_witness:
  "fst (pdf_rasterize ocr_narrow_env ''scan.pdf'' None empty_world) = Inr demo_pages
   \<and> 1 < length demo_pages
   \<and> preprocess_image (vision ocr_narrow_env) (np_array (demo_pages ! 1))
       = Inr (Gray [[255, 255]])
   \<and> image_to_string ocr_narrow_env (Gray [[255, 255]]) = Inl (Exception ''engine crashed'')
   \<and> fst (page_body ocr_narrow_env None 2 0 (demo_pages ! 0) empty_world)
       = Inr \<lparr>page = 1, text = ''first''\<rparr>
   \<and> ocr_calls (snd (process_pdf_file ocr_narrow_env ''scan.pdf'' None empty_world))
       = [Gray [[255]], Gray [[255, 255]]]
   \<and> fst (process_pdf_file ocr_narrow_env ''scan.pdf'' None empty_world) = []
   \<and> stdout (snd (process_pdf_file ocr_narrow_env ''scan.pdf'' None empty_world))
       = [''Converting PDF to images: scan.pdf'', ''Processing page 1/2'', ''Processing page 2/2'',
          ''Error processing PDF scan.pdf: engine crashed'']"
proof -
  have h1: "fst (pdf_rasterize ocr_narrow_env ''scan.pdf'' None empty_world) = Inr demo_pages"
    by (simp add: pdf_rasterize_def demo_env_def ocr_narrow_env_def empty_world_def)
  have h2: "1 < length demo_pages" by (simp add: demo_pages_def)
  have h3: "preprocess_image (vision ocr_narrow_env) (np_array (demo_pages ! 1))
       = Inr (Gray [[255, 255]])"
    by (simp add: demo_defs demo_preprocess)
  have h4: "image_to_string ocr_narrow_env (Gray [[255, 255]]) = Inl (Exception ''engine crashed'')"
    by (simp add: demo_defs)
  have p1: "fst (page_body ocr_narrow_env None 2 0 (demo_pages ! 0) empty_world)
       = Inr \<lparr>page = 1, text = ''first''\<rparr>"
    by (simp add: run_defs demo_defs demo_preprocess)
  have c: "ocr_calls (snd (process_pdf_file ocr_narrow_env ''scan.pdf'' None empty_world))
       = [Gray [[255]], Gray [[255, 255]]]"
    by (simp add: run_defs demo_defs demo_preprocess)
  have s: "stdout (snd (process_pdf_file ocr_narrow_env ''scan.pdf'' None empty_world))
       = [''Converting PDF to images: scan.pdf'', ''Processing page 1/2'', ''Processing page 2/2'',
          ''Error processing PDF scan.pdf: engine crashed'']"
    by (simp add: run_defs demo_defs demo_preprocess str_nat_digits)
  have r: "preprocess_image (vision ocr_narrow_env) (np_array (demo_pages ! 1))
             = Inl (Exception ''engine crashed'')
       \<or> (\<exists>pre. preprocess_image (vision ocr_narrow_env) (np_array (demo_pages ! 1)) = Inr pre
             \<and> ((truthy None
                   \<and> pil_save ocr_narrow_env (demo_pages ! 1)
                        (join (the None) (page_filename (Suc 1))) = Some (Exception ''engine crashed''))
                \<or> (truthy None
                    \<and> imwrite ocr_narrow_env (join (the None) (preprocessed_filename (Suc 1))) pre
                        = Inl (Exception ''engine crashed''))
                \<or> image_to_string ocr_narrow_env pre = Inl (Exception ''engine crashed'')))"
    using h3 h4 by blast
  from pdf_loop_exception_returns_empty [OF h1 h2 r]
  have e: "fst (process_pdf_file ocr_narrow_env ''scan.pdf'' None empty_world) = []" by blast
  from h1 h2 h3 h4 p1 c e s show ?thesis by blast
qed

text \<open>
  An input named \<open>notes.TXT\<close>: two lines are printed and nothing else happens.
\<close>

theorem unsupported_extension_writes_nothing_witness:
  "file_ext (demo_image_args\<lparr>input := ''notes.TXT''\<rparr>)
     \<notin> {''.pdf'', ''.jpg'', ''.jpeg'', ''.png'', ''.tiff'', ''.bmp''}
   \<and> main demo_env (demo_image_args\<lparr>input := ''notes.TXT''\<rparr>) empty_world
       = (None, empty_world\<lparr>stdout := [''Unsupported file format: .txt'',
                                         ''Supported formats: PDF, JPG, JPEG, PNG, TIFF, BMP'']\<rparr>)
   \<and> files (snd (main demo_env (demo_image_args\<lparr>input := ''notes.TXT''\<rparr>) empty_world))
       = files empty_world
   \<and> ocr_calls (snd (main demo_env (demo_image_args\<lparr>input := ''notes.TXT''\<rparr>) empty_world)) = []"
proof -
  have h: "file_ext (demo_image_args\<lparr>input := ''notes.TXT''\<rparr>)
     \<notin> {''.pdf'', ''.jpg'', ''.jpeg'', ''.png'', ''.tiff'', ''.bmp''}"
    by (simp add: demo_file_ext)
  from unsupported_extension_writes_nothing [OF h, of demo_env empty_world] h show ?thesis
    by (simp add: demo_file_ext empty_world_def)
qed

text \<open>
  C7, as stated, fails when the output path is the path of the side artifact.  The
  image \<open>in/photo.png\<close> loads, its preprocessed version is written to
  \<open>preprocessed_photo.png\<close> (line 60), and only then the OCR engine, which raises
  whatever the image, raises: \<open>process_image_file\<close> returns \<open>None\<close>, but with
  \<open>--output preprocessed_photo.png\<close> the output path, absent before the run, now
  holds a file.
\<close>

theorem image_failure_output_aliases_artifact:
  "file_ext (demo_image_args\<lparr>output := ''preprocessed_photo.png''\<rparr>)
     \<in> set [''.jpg'', ''.jpeg'', ''.png'', ''.tiff'', ''.bmp'']
   \<and> fst (image_try ocr_crash_env (input (demo_image_args\<lparr>output := ''preprocessed_photo.png''\<rparr>))
            empty_world) = Inl (Exception ''engine crashed'')
   \<and> fst (process_image_file ocr_crash_env
            (input (demo_image_args\<lparr>output := ''preprocessed_photo.png''\<rparr>)) empty_world) = None
   \<and> files empty_world (output (demo_image_args\<lparr>output := ''preprocessed_photo.png''\<rparr>)) = None
   \<and> files (snd (main ocr_crash_env (demo_image_args\<lparr>output := ''preprocessed_photo.png''\<rparr>)
                   empty_world))
        (output (demo_image_args\<lparr>output := ''preprocessed_photo.png''\<rparr>))
       = Some (SavedArray (Gray [[255]]))
   \<and> writes (snd (main ocr_crash_env (demo_image_args\<lparr>output := ''preprocessed_photo.png''\<rparr>)
                    empty_world))
       = [output (demo_image_args\<lparr>output := ''preprocessed_photo.png''\<rparr>)]"
  by (simp add: run_defs demo_defs demo_preprocess)

text \<open>
  An image that cannot be decoded: one line is printed and no file is written.  An
  image on which the OCR engine raises: one line is printed, and the side artifact is
  the only file written.
\<close>

theorem image_failure_leaves_output_witness:
  "file_ext demo_image_args \<in> set [''.jpg'', ''.jpeg'', ''.png'', ''.tiff'', ''.bmp'']
   \<and> imread unreadable_env (input demo_image_args) = Inr None
   \<and> fst (process_image_file unreadable_env (input demo_image_args) empty_world) = None
   \<and> stdout (snd (process_image_file unreadable_env (input demo_image_args) empty_world))
       = [''Failed to load image: in/photo.png'']
   \<and> main unreadable_env demo_image_args empty_world
       = (None, snd (process_image_file unreadable_env (input demo_image_args) empty_world))
   \<and> writes (snd (main unreadable_env demo_image_args empty_world)) = []
   \<and> files (snd (main unreadable_env demo_image_args empty_world)) = files empty_world
   \<and> imread ocr_crash_env (input demo_image_args) = Inr (Some (Color [[[255, 255, 255]]]))
   \<and> preprocess_image (vision ocr_crash_env) (Color [[[255, 255, 255]]]) = Inr (Gray [[255]])
   \<and> image_to_string ocr_crash_env (Gray [[255]]) = Inl (Exception ''engine crashed'')
   \<and> fst (process_image_file ocr_crash_env (input demo_image_args) empty_world) = None
   \<and> stdout (snd (process_image_file ocr_crash_env (input demo_image_args) empty_world))
       = [''Error processing image in/photo.png: engine crashed'']
   \<and> main ocr_crash_env demo_image_args empty_world
       = (None, snd (process_image_file ocr_crash_env (input demo_image_args) empty_world))
   \<and> writes (snd (main ocr_crash_env demo_image_args empty_world)) = [''preprocessed_photo.png'']"
proof -
  have h1: "file_ext demo_image_args \<in> set [''.jpg'', ''.jpeg'', ''.png'', ''.tiff'', ''.bmp'']"
    by (simp add: demo_file_ext)
  have h2: "imread unreadable_env (input demo_image_args) = Inr None"
    by (simp add: demo_defs)
  have s: "stdout (snd (process_image_file unreadable_env (input demo_image_args) empty_world))
       = [''Failed to load image: in/photo.png'']"
    by (simp add: run_defs demo_defs)
  note t = image_failure_leaves_output [of demo_image_args unreadable_env _ empty_world,
               OF h1 disjI1 [OF h2]]
  from t have c1: "fst (process_image_file unreadable_env (input demo_image_args) empty_world) = None"
    by blast
  from t have c2: "main unreadable_env demo_image_args empty_world
       = (None, snd (process_image_file unreadable_env (input demo_image_args) empty_world))"
    by blast
  from t h2 have "writes (snd (main unreadable_env demo_image_args empty_world)) = writes empty_world"
    by blast
  then have c3: "writes (snd (main unreadable_env demo_image_args empty_world)) = []"
    by (simp add: empty_world_def)
  from t h2 have c4: "files (snd (main unreadable_env demo_image_args empty_world)) = files empty_world"
    by blast
  have g1: "imread ocr_crash_env (input demo_image_args) = Inr (Some (Color [[[255, 255, 255]]]))"
    by (simp add: demo_defs)
  have g2: "preprocess_image (vision ocr_crash_env) (Color [[[255, 255, 255]]]) = Inr (Gray [[255]])"
    by (simp add: demo_defs demo_preprocess)
  have g3: "image_to_string ocr_crash_env (Gray [[255]]) = Inl (Exception ''engine crashed'')"
    by (simp add: demo_defs)
  have f: "imread ocr_crash_env (input demo_image_args) = Inr None
       \<or> imread ocr_crash_env (input demo_image_args) = Inl (Exception ''engine crashed'')
       \<or> (\<exists>img. imread ocr_crash_env (input demo_image_args) = Inr (Some img)
             \<and> (preprocess_image (vision ocr_crash_env) img = Inl (Exception ''engine crashed'')
                \<or> (\<exists>pre. preprocess_image (vision ocr_crash_env) img = Inr pre
                      \<and> (imwrite ocr_crash_env (''preprocessed_'' @ basename (input demo_image_args))
                            pre = Inl (Exception ''engine crashed'')
                         \<or> image_to_string ocr_crash_env pre = Inl (Exception ''engine crashed'')))))"
    using g1 g2 g3 by blast
  note u = image_failure_leaves_output [of demo_image_args ocr_crash_env _ empty_world, OF h1 f]
  from u have d1: "fst (process_image_file ocr_crash_env (input demo_image_args) empty_world) = None"
    by blast
  from u have d2: "main ocr_crash_env demo_image_args empty_world
       = (None, snd (process_image_file ocr_crash_env (input demo_image_args) empty_world))"
    by blast
  have d3: "stdout (snd (process_image_file ocr_crash_env (input demo_image_args) empty_world))
       = [''Error processing image in/photo.png: engine crashed'']"
    by (simp add: run_defs demo_defs demo_preprocess)
  have d4: "writes (snd (main ocr_crash_env demo_image_args empty_world)) = [''preprocessed_photo.png'']"
    by (simp add: run_defs demo_defs demo_preprocess)
  from h1 h2 c1 s c2 c3 c4 g1 g2 g3 d1 d3 d2 d4 show ?thesis by blast
qed

text \<open>
  C9, as stated, fails: the empty-text run can be told from a failed run.  On the same
  command line and in the same world, the run whose OCR engine finds no text prints
  nothing and writes the side artifact, the run whose image cannot be decoded prints
  an error line and writes nothing; neither writes the output file.
\<close>

theorem empty_text_run_differs_from_failure:
  "fst (process_image_file blank_env (input demo_image_args) empty_world) = Some []
   \<and> fst (process_image_file unreadable_env (input demo_image_args) empty_world) = None
   \<and> stdout (snd (main blank_env demo_image_args empty_world)) = []
   \<and> stdout (snd (main unreadable_env demo_image_args empty_world))
       = [''Failed to load image: in/photo.png'']
   \<and> writes (snd (main blank_env demo_image_args empty_world)) = [''preprocessed_photo.png'']
   \<and> writes (snd (main unreadable_env demo_image_args empty_world)) = []
   \<and> files (snd (main blank_env demo_image_args empty_world)) ''out.txt'' = None
   \<and> files (snd (main unreadable_env demo_image_args empty_world)) ''out.txt'' = None"
  by (simp add: run_defs demo_defs demo_preprocess)

text \<open>
  The OCR engine finds no text in a readable image: only the side artifact is written
  and nothing is printed, where the run on an undecodable image prints a line.
\<close>

theorem empty_text_writes_no_output_witness:
  "file_ext demo_image_args \<in> set [''.jpg'', ''.jpeg'', ''.png'', ''.tiff'', ''.bmp'']
   \<and> imread blank_env (input demo_image_args) = Inr (Some (Color [[[255, 255, 255]]]))
   \<and> preprocess_image (vision blank_env) (Color [[[255, 255, 255]]]) = Inr (Gray [[255]])
   \<and> imwrite blank_env (''preprocessed_'' @ basename (input demo_image_args)) (Gray [[255]])
       = Inr True
   \<and> image_to_string blank_env (Gray [[255]]) = Inr []
   \<and> imread unreadable_env (input demo_image_args) = Inr None
   \<and> fst (process_image_file blank_env (input demo_image_args) empty_world) = Some []
   \<and> main blank_env demo_image_args empty_world
       = (None, snd (process_image_file blank_env (input demo_image_args) empty_world))
   \<and> stdout (snd (main blank_env demo_image_args empty_world)) = []
   \<and> writes (snd (main blank_env demo_image_args empty_world)) = [''preprocessed_photo.png'']
   \<and> ocr_calls (snd (main blank_env demo_image_args empty_world)) = [Gray [[255]]]
   \<and> main_image_tail blank_env demo_image_args (Some []) empty_world
       = main_image_tail blank_env demo_image_args None empty_world
   \<and> stdout (snd (main unreadable_env demo_image_args empty_world))
       \<noteq> stdout (snd (main blank_env demo_image_args empty_world))"
proof -
  have h1: "file_ext demo_image_args \<in> set [''.jpg'', ''.jpeg'', ''.png'', ''.tiff'', ''.bmp'']"
    by (simp add: demo_file_ext)
  have h2: "imread blank_env (input demo_image_args) = Inr (Some (Color [[[255, 255, 255]]]))"
    by (simp add: demo_defs)
  have h3: "preprocess_image (vision blank_env) (Color [[[255, 255, 255]]]) = Inr (Gray [[255]])"
    by (simp add: demo_defs demo_preprocess)
  have h4: "imwrite blank_env (''preprocessed_'' @ basename (input demo_image_args)) (Gray [[255]])
       = Inr True"
    by (simp add: demo_defs)
  have h5: "image_to_string blank_env (Gray [[255]]) = Inr []"
    by (simp add: demo_defs)
  have h6: "imread unreadable_env (input demo_image_args) = Inr None"
    by (simp add: demo_defs)
  have b: "basename (input demo_image_args) = ''photo.png''"
    by (simp add: demo_defs basename_def)
  note t = empty_text_writes_no_output [OF h1 h2 h3 h4 h5, of empty_world empty_world]
  from t have c1: "fst (process_image_file blank_env (input demo_image_args) empty_world) = Some []"
    by blast
  from t have c2: "main blank_env demo_image_args empty_world
       = (None, snd (process_image_file blank_env (input demo_image_args) empty_world))"
    by blast
  from t have "stdout (snd (main blank_env demo_image_args empty_world)) = stdout empty_world"
    by blast
  then have c3: "stdout (snd (main blank_env demo_image_args empty_world)) = []"
    by (simp add: empty_world_def)
  from t have "writes (snd (main blank_env demo_image_args empty_world))
       = writes empty_world
         @ (if True then [''preprocessed_'' @ basename (input demo_image_args)] else [])"
    by blast
  then have c4: "writes (snd (main blank_env demo_image_args empty_world))
       = [''preprocessed_photo.png'']"
    by (simp add: b empty_world_def)
  from t have "ocr_calls (snd (main blank_env demo_image_args empty_world))
       = ocr_calls empty_world @ [Gray [[255]]]"
    by blast
  then have c5: "ocr_calls (snd (main blank_env demo_image_args empty_world)) = [Gray [[255]]]"
    by (simp add: empty_world_def)
  from t have c6: "main_image_tail blank_env demo_image_args (Some []) empty_world
       = main_image_tail blank_env demo_image_args None empty_world"
    by blast
  from t h6 have c7: "stdout (snd (main unreadable_env demo_image_args empty_world))
       \<noteq> stdout (snd (main blank_env demo_image_args empty_world))"
    by blast
  from h1 h2 h3 h4 h5 h6 c1 c2 c3 c4 c5 c6 c7 show ?thesis by blast
qed




end
